theory Spec2Isabelle
  imports Main "HOL-Library.Sublist" "HOL-Library.Char_ord" "HOL-Library.List_Lexorder"
    "HOL-Library.Multiset"
begin

section \<open>Strings as the manager uses them\<close>

text \<open>
  Python strings are modelled as \<open>string\<close> (lists of 8-bit characters); the model covers
  ASCII text. \<open>lower\<close> is \<open>str.lower()\<close> on ASCII letters, \<open>str_contains sub s\<close> is
  Python's \<open>sub in s\<close>, \<open>strip\<close> is \<open>str.strip()\<close> with the ASCII whitespace set of
  \<open>str.isspace\<close> (0x09-0x0D, 0x1C-0x20).
\<close>

definition lower_char :: "char \<Rightarrow> char" where
  "lower_char c =
     (let n = (of_char c :: nat) in if 65 \<le> n \<and> n \<le> 90 then char_of (n + 32) else c)"

definition lower :: "string \<Rightarrow> string" where
  "lower s = map lower_char s"

fun str_contains :: "string \<Rightarrow> string \<Rightarrow> bool" where
  "str_contains sub [] = (sub = [])"
| "str_contains sub (c # cs) = (prefix sub (c # cs) \<or> str_contains sub cs)"

definition is_space :: "char \<Rightarrow> bool" where
  "is_space c = (let n = (of_char c :: nat) in (9 \<le> n \<and> n \<le> 13) \<or> (28 \<le> n \<and> n \<le> 32))"

definition strip :: "string \<Rightarrow> string" where
  "strip s = rev (dropWhile is_space (rev (dropWhile is_space s)))"

definition startswith :: "string \<Rightarrow> string \<Rightarrow> bool" where
  "startswith s p = prefix p s"

definition digit_char :: "nat \<Rightarrow> char" where
  "digit_char n = char_of (48 + n)"

function str_of_nat :: "nat \<Rightarrow> string" where
  "str_of_nat n =
     (if n < 10 then [digit_char n] else str_of_nat (n div 10) @ [digit_char (n mod 10)])"
  by pat_completeness auto
termination
  by (relation "measure id") auto

declare str_of_nat.simps [simp del]

text \<open>The format specification \<open>{n:,}\<close>: decimal digits in groups of three.\<close>

function commas :: "string \<Rightarrow> string" where
  "commas s =
     (if length s \<le> 3 then s
      else commas (take (length s - 3) s) @ '','' @ drop (length s - 3) s)"
  by pat_completeness auto
termination
  by (relation "measure length") auto

declare commas.simps [simp del]

text \<open>\<open>os.path.basename\<close>: what follows the last slash.\<close>

definition basename :: "string \<Rightarrow> string" where
  "basename p = rev (takeWhile (\<lambda>c. c \<noteq> CHR ''/'') (rev p))"

section \<open>The manager and its effects\<close>

text \<open>
  The fields of \<open>MicrobitManager\<close> that \<open>__init__\<close> sets and the methods mutate. The
  constants \<open>mount_point\<close>, vendor and product id are never assigned after \<open>__init__\<close>.
\<close>

record manager =
  is_mounted :: bool
  microbit_device :: "string option"
  status_message :: string
  selected_file_idx :: int
  manual_unmount :: bool
  show_info_area :: bool

definition mount_point :: string where
  "mount_point = ''/mnt/microbit''"

definition init_manager :: manager where
  "init_manager =
     \<lparr> is_mounted = False, microbit_device = None, status_message = '''',
       selected_file_idx = 0, manual_unmount = False, show_info_area = False \<rparr>"

text \<open>
  Every call that leaves the process is recorded, in order: shell commands with their
  command line, filesystem calls with their path.
\<close>

datatype effect =
    Shell string
  | PathExists string
  | PathIsFile string
  | OpenRead string
  | StatVfs string
  | GetSize string
  | ListDir string
  | Stat string

text \<open>
  \<open>run_command_with_error\<close> returns a success flag and either the trimmed standard
  output or the diagnostic; \<open>run_command\<close> returns the trimmed standard output, or the
  empty string when the command fails. The answers of the operating system are inputs
  of the model, one per call site, so that the world may change between two calls.
\<close>

type_synonym cmd_result = "bool \<times> string"

subsection \<open>get_microbit_block_device\<close>

text \<open>
  One record of \<open>lsblk -J\<close>: the fields the method reads. \<open>lsblk_json\<close> is \<open>None\<close>
  when the output does not parse (\<open>JSONDecodeError\<close>, also when the command failed and
  the output is empty), otherwise the list under \<open>blockdevices\<close>.
\<close>

record blockdevice =
  bd_name :: string
  bd_rm :: bool
  bd_size :: string

record probe =
  probe_exists :: bool
  probe_size_output :: string

record resolve_env =
  lsblk_json :: "blockdevice list option"
  probes :: "string \<Rightarrow> probe"

fun first_removable :: "blockdevice list \<Rightarrow> string option" where
  "first_removable [] = None"
| "first_removable (d # ds) =
     (if bd_rm d \<and> (str_contains ''8.1M'' (bd_size d) \<or> str_contains ''8M'' (bd_size d))
      then Some (''/dev/'' @ bd_name d)
      else first_removable ds)"

fun probe_fallback :: "(string \<Rightarrow> probe) \<Rightarrow> string list \<Rightarrow> string option \<times> effect list" where
  "probe_fallback pr [] = (None, [])"
| "probe_fallback pr (d # ds) =
     (if probe_exists (pr d) then
        (if probe_size_output (pr d) \<noteq> '''' \<and> str_contains ''8'' (probe_size_output (pr d))
         then (Some d, [PathExists d, Shell (''lsblk -b '' @ d @ '' | tail -1'')])
         else (let (r, t) = probe_fallback pr ds
               in (r, [PathExists d, Shell (''lsblk -b '' @ d @ '' | tail -1'')] @ t)))
      else (let (r, t) = probe_fallback pr ds in (r, PathExists d # t)))"

definition get_microbit_block_device :: "resolve_env \<Rightarrow> string option \<times> effect list" where
  "get_microbit_block_device env =
     (case (case lsblk_json env of None \<Rightarrow> None | Some ds \<Rightarrow> first_removable ds) of
        Some d \<Rightarrow> (Some d, [Shell ''lsblk -J''])
      | None \<Rightarrow>
          (let (r, t) = probe_fallback (probes env) [''/dev/sda'', ''/dev/sdb'', ''/dev/sdc'']
           in (r, Shell ''lsblk -J'' # t)))"

subsection \<open>mount_microbit and unmount_microbit\<close>

definition is_microbit_mounted :: "string \<Rightarrow> bool" where
  "is_microbit_mounted mount_output = str_contains mount_point mount_output"

record mount_env =
  me_resolve :: resolve_env
  me_mount_output :: string
  me_mkdir :: cmd_result
  me_mount :: cmd_result

text \<open>
  The result of a method is its return value, the manager after the call and the effects
  of the call. \<open>not device\<close> holds for \<open>None\<close> and for the empty string.
\<close>

type_synonym 'a outcome = "'a \<times> manager \<times> effect list"

definition mount_microbit :: "manager \<Rightarrow> mount_env \<Rightarrow> (bool \<times> string) outcome" where
  "mount_microbit m env =
     (let (dev, t0) = get_microbit_block_device (me_resolve env) in
      case dev of
        None \<Rightarrow> ((False, ''No microbit block device found''), m, t0)
      | Some device \<Rightarrow>
        if device = '''' then ((False, ''No microbit block device found''), m, t0)
        else
          let t1 = t0 @ [Shell ''mount''] in
          if is_microbit_mounted (me_mount_output env) then
            ((True, ''Already mounted '' @ device @ '' to '' @ mount_point),
             m\<lparr>is_mounted := True, microbit_device := Some device\<rparr>, t1)
          else
            let t2 = t1 @ [Shell (''sudo mkdir -p '' @ mount_point)] in
            if \<not> fst (me_mkdir env) then
              ((False, ''Failed to create mount point: '' @ snd (me_mkdir env)), m, t2)
            else
              let t3 = t2 @ [Shell (''sudo mount '' @ device @ '' '' @ mount_point)];
                  result = snd (me_mount env) in
              if fst (me_mount env) then
                ((True, ''Mounted '' @ device @ '' to '' @ mount_point),
                 m\<lparr>is_mounted := True, microbit_device := Some device\<rparr>, t3)
              else
                let error_lower = lower result in
                if str_contains ''already mounted'' error_lower then
                  ((True, ''Already mounted '' @ device),
                   m\<lparr>is_mounted := True, microbit_device := Some device\<rparr>, t3)
                else if str_contains ''permission denied'' error_lower then
                  ((False, ''Permission denied - run with sudo''), m, t3)
                else if str_contains ''no such file or directory'' error_lower then
                  ((False, ''Device '' @ device
                      @ '' not found - microbit may have been disconnected''), m, t3)
                else if str_contains ''wrong fs type'' error_lower
                        \<or> str_contains ''invalid argument'' error_lower then
                  ((False, ''Cannot mount '' @ device
                      @ '' - unsupported filesystem or corrupted device''), m, t3)
                else ((False, ''Mount failed: '' @ result), m, t3))"

record unmount_env =
  ue_mount_output :: string
  ue_umount :: cmd_result

text \<open>
  The mount table is read only when the manager does not believe itself mounted: the
  \<open>and\<close> of the first test does not evaluate its second operand otherwise.
\<close>

definition unmount_microbit :: "manager \<Rightarrow> unmount_env \<Rightarrow> (bool \<times> string) outcome" where
  "unmount_microbit m env =
     (let t0 = (if is_mounted m then [] else [Shell ''mount'']) in
      if \<not> is_mounted m \<and> \<not> is_microbit_mounted (ue_mount_output env) then
        ((True, ''Microbit not mounted''), m, t0)
      else
        let t1 = t0 @ [Shell (''sudo umount '' @ mount_point)];
            result = snd (ue_umount env) in
        if fst (ue_umount env) then
          ((True, ''Microbit unmounted successfully''),
           m\<lparr>is_mounted := False, microbit_device := None\<rparr>, t1)
        else
          let error_lower = lower result in
          if str_contains ''not mounted'' error_lower then
            ((True, ''Microbit was not mounted''),
             m\<lparr>is_mounted := False, microbit_device := None\<rparr>, t1)
          else if str_contains ''device is busy'' error_lower
                  \<or> str_contains ''target is busy'' error_lower then
            ((False, ''Cannot unmount - device is busy (close any files or programs using it)''),
             m, t1)
          else if str_contains ''permission denied'' error_lower then
            ((False, ''Permission denied - run with sudo''), m, t1)
          else if str_contains ''no such file or directory'' error_lower then
            ((True, ''Mount point not found - considering unmounted''),
             m\<lparr>is_mounted := False, microbit_device := None\<rparr>, t1)
          else ((False, ''Unmount failed: '' @ result), m, t1))"

section \<open>The firmware catalogue\<close>

subsection \<open>validate_hex_file\<close>

text \<open>
  A text file is read as its decoded content, with line ends already translated to the
  line feed. \<open>iter_lines\<close> is the iteration over the file: every line keeps its line
  feed, the last line may lack one. \<open>readlines hint\<close> is \<open>IOBase.readlines(hint)\<close> of
  CPython's \<open>io\<close> module: lines are collected until the length of the line just read
  exceeds what is left of the hint.
\<close>

fun iter_lines :: "string \<Rightarrow> string list" where
  "iter_lines [] = []"
| "iter_lines (c # cs) =
     (if c = CHR 0x0A then [c] # iter_lines cs
      else (case iter_lines cs of [] \<Rightarrow> [[c]] | l # ls \<Rightarrow> (c # l) # ls))"

fun readlines :: "int \<Rightarrow> int \<Rightarrow> string list \<Rightarrow> string list" where
  "readlines hint len [] = []"
| "readlines hint len (l # ls) =
     (if int (length l) > hint - len then [l]
      else l # readlines hint (len + int (length l)) ls)"

text \<open>
  \<open>int(s, 16)\<close> on an ASCII string, as \<open>PyLong_FromString\<close> reads it: blanks, an
  optional sign, an optional \<open>0x\<close> prefix that one underscore may follow, then
  hexadecimal digits with single underscores between them, then blanks up to the end.
  \<open>int16_parses s\<close> holds when no \<open>ValueError\<close> is raised.
\<close>

definition is_c_space :: "char \<Rightarrow> bool" where
  "is_c_space c = (let n = (of_char c :: nat) in (9 \<le> n \<and> n \<le> 13) \<or> n = 32)"

definition is_hex_digit :: "char \<Rightarrow> bool" where
  "is_hex_digit c =
     (let n = (of_char c :: nat)
      in (48 \<le> n \<and> n \<le> 57) \<or> (65 \<le> n \<and> n \<le> 70) \<or> (97 \<le> n \<and> n \<le> 102))"

fun scan_digits :: "bool \<Rightarrow> string \<Rightarrow> string option" where
  "scan_digits prev_us [] = (if prev_us then None else Some [])"
| "scan_digits prev_us (c # cs) =
     (if c = CHR ''_'' then (if prev_us then None else scan_digits True cs)
      else if is_hex_digit c then scan_digits False cs
      else if prev_us then None else Some (c # cs))"

definition skip_sign :: "string \<Rightarrow> string" where
  "skip_sign s =
     (case s of [] \<Rightarrow> [] | c # r \<Rightarrow> if c = CHR ''+'' \<or> c = CHR ''-'' then r else s)"

definition skip_prefix :: "string \<Rightarrow> string" where
  "skip_prefix s =
     (case s of
        a # b # r \<Rightarrow>
          if a = CHR ''0'' \<and> (b = CHR ''x'' \<or> b = CHR ''X'')
          then (case r of [] \<Rightarrow> r | u # r' \<Rightarrow> if u = CHR ''_'' then r' else r)
          else s
      | _ \<Rightarrow> s)"

definition int16_parses :: "string \<Rightarrow> bool" where
  "int16_parses s =
     (let body = skip_prefix (skip_sign (dropWhile is_c_space s)) in
      case body of
        [] \<Rightarrow> False
      | c # _ \<Rightarrow>
          if c = CHR ''_'' then False
          else (case scan_digits False body of
                  None \<Rightarrow> False
                | Some rest \<Rightarrow> rest \<noteq> body \<and> dropWhile is_c_space rest = []))"

text \<open>The test of the loop body: the line counts towards \<open>hex_line_count\<close>.\<close>

definition hex_line :: "string \<Rightarrow> bool" where
  "hex_line line0 =
     (let line = strip line0
      in startswith line '':'' \<and> length line \<ge> 11 \<and> int16_parses (tl line))"

definition count_hex_lines :: "string list \<Rightarrow> nat" where
  "count_hex_lines ls = foldl (\<lambda>n line. if hex_line line then n + 1 else n) 0 ls"

text \<open>
  The argument is what opening and reading the file gives: the text, or the message of
  the exception raised.
\<close>

definition validate_hex_file :: "string + string \<Rightarrow> bool \<times> string" where
  "validate_hex_file rd =
     (case rd of
        Inl e \<Rightarrow> (False, ''Cannot validate file: '' @ e)
      | Inr content \<Rightarrow>
          let lines = readlines 100 0 (iter_lines content) in
          if lines = [] then (False, ''File is empty'')
          else
            let hex_line_count = count_hex_lines (take 10 lines) in
            if hex_line_count = 0
            then (False, ''File does not appear to be in Intel HEX format'')
            else (True, ''Valid HEX file''))"

subsection \<open>Formatted modification times\<close>

text \<open>
  \<open>datetime.fromtimestamp(t).strftime('%Y-%m-%d %H:%M')\<close>: \<open>tz t\<close> is the offset of
  local time from UTC, in seconds, in effect at \<open>t\<close>. Timestamps are whole seconds.
  Years outside 1..9999 raise.
\<close>

definition civil_from_days :: "int \<Rightarrow> int \<times> int \<times> int" where
  "civil_from_days days =
     (let z = days + 719468;
          era = z div 146097;
          doe = z mod 146097;
          yoe = (doe - doe div 1460 + doe div 36524 - doe div 146096) div 365;
          doy = doe - (365 * yoe + yoe div 4 - yoe div 100);
          mp = (5 * doy + 2) div 153;
          d = doy - (153 * mp + 2) div 5 + 1;
          mo = (if mp < 10 then mp + 3 else mp - 9);
          y = yoe + era * 400 + (if mo \<le> 2 then 1 else 0)
      in (y, mo, d))"

definition pad2 :: "int \<Rightarrow> string" where
  "pad2 n = (if n < 10 then ''0'' @ str_of_nat (nat n) else str_of_nat (nat n))"

definition pad4 :: "int \<Rightarrow> string" where
  "pad4 n = replicate (4 - length (str_of_nat (nat n))) (CHR ''0'') @ str_of_nat (nat n)"

definition format_mtime :: "(int \<Rightarrow> int) \<Rightarrow> int \<Rightarrow> string + string" where
  "format_mtime tz t =
     (let loc = t + tz t;
          (y, mo, d) = civil_from_days (loc div 86400);
          secs = loc mod 86400
      in if y < 1 \<or> y > 9999 then Inl ''year is out of range''
         else Inr (pad4 y @ ''-'' @ pad2 mo @ ''-'' @ pad2 d @ '' ''
                   @ pad2 (secs div 3600) @ '':'' @ pad2 (secs mod 3600 div 60)))"

subsection \<open>get_hex_files\<close>

text \<open>
  \<open>sorted(xs, key=k, reverse=True)\<close> is stable: elements with equal keys keep their
  order. CPython reverses the list, sorts it stably and reverses the result.
\<close>

definition sorted_reverse :: "('a \<Rightarrow> 'k::linorder) \<Rightarrow> 'a list \<Rightarrow> 'a list" where
  "sorted_reverse k xs = rev (sort_key k (rev xs))"

record hex_file =
  hf_name :: string
  hf_path :: string
  hf_size :: nat
  hf_mtime :: string

text \<open>
  The state of the source directory at the call: whether it exists, and the entries
  \<open>glob("*.hex")\<close> yields, in the order it yields them, each with what \<open>stat()\<close> on
  it gives (size and modification time, or the exception's message).
\<close>

record glob_entry =
  ge_name :: string
  ge_stat :: "string + (nat \<times> int)"

record dir_env =
  de_path :: string
  de_exists :: bool
  de_glob :: "glob_entry list"
  de_tz :: "int \<Rightarrow> int"

fun collect_hex :: "string \<Rightarrow> (int \<Rightarrow> int) \<Rightarrow> glob_entry list \<Rightarrow> string + hex_file list" where
  "collect_hex dir tz [] = Inr []"
| "collect_hex dir tz (e # es) =
     (case ge_stat e of
        Inl x \<Rightarrow> Inl x
      | Inr (sz, mt) \<Rightarrow>
          (case format_mtime tz mt of
             Inl x \<Rightarrow> Inl x
           | Inr s \<Rightarrow>
               (case collect_hex dir tz es of
                  Inl x \<Rightarrow> Inl x
                | Inr fs \<Rightarrow>
                    Inr (\<lparr> hf_name = ge_name e, hf_path = dir @ ''/'' @ ge_name e,
                           hf_size = sz, hf_mtime = s \<rparr> # fs))))"

definition get_hex_files :: "dir_env \<Rightarrow> string + hex_file list" where
  "get_hex_files env =
     (case (if de_exists env then collect_hex (de_path env) (de_tz env) (de_glob env)
            else Inr []) of
        Inl x \<Rightarrow> Inl x
      | Inr hex_files \<Rightarrow> Inr (sorted_reverse hf_mtime hex_files))"

subsection \<open>get_microbit_files\<close>

record dev_file =
  df_name :: string
  df_size :: nat
  df_mtime :: string

record dev_entry =
  dv_name :: string
  dv_isfile :: bool
  dv_stat :: "string + (nat \<times> int)"

record files_env =
  fe_mp_exists :: bool
  fe_listdir :: "string + dev_entry list"
  fe_tz :: "int \<Rightarrow> int"

definition dev_file_of :: "(int \<Rightarrow> int) \<Rightarrow> dev_entry \<Rightarrow> dev_file" where
  "dev_file_of tz e =
     (case (case dv_stat e of
              Inl x \<Rightarrow> Inl x
            | Inr (sz, mt) \<Rightarrow>
                (case format_mtime tz mt of Inl x \<Rightarrow> Inl x | Inr s \<Rightarrow> Inr (sz, s))) of
        Inr (sz, s) \<Rightarrow> \<lparr> df_name = dv_name e, df_size = sz, df_mtime = s \<rparr>
      | Inl x \<Rightarrow> \<lparr> df_name = dv_name e, df_size = 0, df_mtime = ''unknown'' \<rparr>)"

definition get_microbit_files :: "manager \<Rightarrow> files_env \<Rightarrow> dev_file list option" where
  "get_microbit_files m env =
     (if \<not> is_mounted m \<or> \<not> fe_mp_exists env then None
      else (case fe_listdir env of
              Inl x \<Rightarrow> None
            | Inr items \<Rightarrow>
                Some (sort_key df_name (map (dev_file_of (fe_tz env)) (filter dv_isfile items)))))"

section \<open>The transfer\<close>

subsection \<open>copy_hex_file\<close>

text \<open>
  What the world answers to each call of \<open>copy_hex_file\<close>, in the order of the calls.
  An \<open>Inl\<close> is the message of the exception raised. The read check tells a
  \<open>PermissionError\<close> from any other exception.
\<close>

datatype read_exc = PermissionError | OtherException string

record copy_env =
  ce_src_exists :: bool
  ce_src_isfile :: bool
  ce_validate_read :: "string + string"
  ce_read_check :: "read_exc option"
  ce_mp_exists :: bool
  ce_statvfs :: "string + (nat \<times> nat)"
  ce_src_size_space :: "string + nat"
  ce_cp :: cmd_result
  ce_dest_exists :: bool
  ce_dest_size :: "string + nat"
  ce_src_size_verify :: "string + nat"

definition squote :: string where
  "squote = [CHR 0x27]"

text \<open>
  The capacity check of the \<open>try\<close> block: \<open>Some\<close> message when the free space is known
  and too small, \<open>None\<close> when the copy goes on (also when a call of the block raised).
  The second component is the effects of the block.
\<close>

definition space_check :: "copy_env \<Rightarrow> string \<Rightarrow> string option \<times> effect list" where
  "space_check env hex_file_path =
     (case ce_statvfs env of
        Inl x \<Rightarrow> (None, [StatVfs mount_point])
      | Inr (f_frsize, f_bavail) \<Rightarrow>
          (case ce_src_size_space env of
             Inl x \<Rightarrow> (None, [StatVfs mount_point, GetSize hex_file_path])
           | Inr file_size \<Rightarrow>
               let free_bytes = f_frsize * f_bavail in
               (if free_bytes < file_size
                then Some (''Not enough space on microbit ('' @ str_of_nat free_bytes
                           @ '' bytes free, need '' @ str_of_nat file_size @ '')'')
                else None,
                [StatVfs mount_point, GetSize hex_file_path])))"

text \<open>The branch taken when the copy command reported success.\<close>

definition verify_copy ::
  "copy_env \<Rightarrow> string \<Rightarrow> string \<Rightarrow> string \<Rightarrow> (bool \<times> string) \<times> effect list" where
  "verify_copy env hex_file_path dest_path filename =
     (if ce_dest_exists env then
        (case ce_dest_size env of
           Inl e \<Rightarrow>
             ((True, ''Copied '' @ filename @ '' (verification failed: '' @ e @ '')''),
              [PathExists dest_path, GetSize dest_path])
         | Inr copied_size \<Rightarrow>
             (case ce_src_size_verify env of
                Inl e \<Rightarrow>
                  ((True, ''Copied '' @ filename @ '' (verification failed: '' @ e @ '')''),
                   [PathExists dest_path, GetSize dest_path, GetSize hex_file_path])
              | Inr original_size \<Rightarrow>
                  (if copied_size \<noteq> original_size
                   then (False, ''Copy incomplete: '' @ str_of_nat copied_size @ ''/''
                                @ str_of_nat original_size @ '' bytes'')
                   else (True, ''Successfully copied '' @ filename @ '' (''
                               @ commas (str_of_nat copied_size) @ '' bytes)''),
                   [PathExists dest_path, GetSize dest_path, GetSize hex_file_path])))
      else ((False, ''Copy appeared successful but file not found on microbit''),
            [PathExists dest_path]))"

text \<open>The branch taken when the copy command failed, with its diagnostic.\<close>

definition classify_copy_error :: "string \<Rightarrow> bool \<times> string" where
  "classify_copy_error result =
     (let error_lower = lower result in
      if str_contains ''no space left'' error_lower then
        (False, ''No space left on microbit'')
      else if str_contains ''permission denied'' error_lower then
        (False, ''Permission denied - microbit may be read-only or disconnected'')
      else if str_contains ''no such file'' error_lower then
        (False, ''Microbit disconnected during copy'')
      else if str_contains ''input/output error'' error_lower then
        (False, ''I/O error - microbit may have been disconnected'')
      else (False, ''Copy failed: '' @ result))"

definition copy_hex_file ::
  "manager \<Rightarrow> copy_env \<Rightarrow> string \<Rightarrow> (bool \<times> string) \<times> effect list" where
  "copy_hex_file m env hex_file_path =
     (if \<not> is_mounted m then ((False, ''Microbit not mounted''), [])
      else
        let t1 = [PathExists hex_file_path] in
        if \<not> ce_src_exists env then
          ((False, ''Source file not found: '' @ hex_file_path), t1)
        else
          let t2 = t1 @ [PathIsFile hex_file_path] in
          if \<not> ce_src_isfile env then
            ((False, ''Source is not a file: '' @ hex_file_path), t2)
          else
            let (is_valid, validation_msg) = validate_hex_file (ce_validate_read env);
                t3 = t2 @ [OpenRead hex_file_path] in
            if \<not> is_valid then ((False, ''Invalid HEX file: '' @ validation_msg), t3)
            else
              let t4 = t3 @ [OpenRead hex_file_path] in
              case ce_read_check env of
                Some PermissionError \<Rightarrow>
                  ((False, ''Permission denied reading source file''), t4)
              | Some (OtherException e) \<Rightarrow>
                  ((False, ''Cannot read source file: '' @ e), t4)
              | None \<Rightarrow>
                  let filename = basename hex_file_path;
                      dest_path = mount_point @ ''/'' @ filename;
                      t5 = t4 @ [PathExists mount_point] in
                  if \<not> ce_mp_exists env then
                    ((False, ''Mount point no longer exists - microbit may have been disconnected''),
                     t5)
                  else
                    let (no_space, ts) = space_check env hex_file_path;
                        t6 = t5 @ ts in
                    (case no_space of
                       Some msg \<Rightarrow> ((False, msg), t6)
                     | None \<Rightarrow>
                         let t7 = t6 @ [Shell (''sudo cp '' @ squote @ hex_file_path @ squote
                                               @ '' '' @ squote @ dest_path @ squote)] in
                         if fst (ce_cp env) then
                           (let (r, tv) = verify_copy env hex_file_path dest_path filename
                            in (r, t7 @ tv))
                         else (classify_copy_error (snd (ce_cp env)), t7)))"

section \<open>The control loop\<close>

text \<open>
  One iteration of \<open>main_loop\<close>, without the drawing, which reads the manager and
  assigns none of its fields: the status check (lines 581-595), the listing of the
  source directory and the adjustment of the selected index, and the key.
  \<open>connected\<close> is the first component of what \<open>detect_microbit\<close> returned.
\<close>

definition status_check ::
  "manager \<Rightarrow> bool \<Rightarrow> mount_env \<Rightarrow> unmount_env \<Rightarrow> manager \<times> effect list" where
  "status_check m connected menv uenv =
     (if connected \<and> \<not> is_mounted m \<and> \<not> manual_unmount m then
        (let ((success, msg), m', t) = mount_microbit m menv
         in (if success then m'\<lparr>status_message := msg\<rparr> else m', Shell ''lsusb'' # t))
      else if \<not> connected \<and> is_mounted m then
        (let (r, m', t) = unmount_microbit m uenv
         in (m'\<lparr>manual_unmount := False,
                 status_message := ''Microbit disconnected and unmounted''\<rparr>,
             Shell ''lsusb'' # t))
      else if \<not> connected then (m\<lparr>manual_unmount := False\<rparr>, [Shell ''lsusb''])
      else (m, [Shell ''lsusb'']))"

definition adjust_index :: "manager \<Rightarrow> hex_file list \<Rightarrow> manager" where
  "adjust_index m hex_files =
     (if hex_files \<noteq> []
      then m\<lparr>selected_file_idx := min (selected_file_idx m) (int (length hex_files) - 1)\<rparr>
      else m\<lparr>selected_file_idx := 0\<rparr>)"

text \<open>Python's \<open>xs[i]\<close>: a negative index counts from the end, out of range raises.\<close>

definition py_index :: "'a list \<Rightarrow> int \<Rightarrow> 'a option" where
  "py_index xs i =
     (let n = int (length xs); j = (if i < 0 then n + i else i)
      in if 0 \<le> j \<and> j < n then Some (xs ! nat j) else None)"

datatype loop_status = Continue | Quit | Raised string

record key_env =
  ke_key :: int
  ke_mount :: mount_env
  ke_unmount :: unmount_env
  ke_copy :: copy_env

text \<open>
  The key codes: \<open>ord('q') = 113\<close>, \<open>KEY_UP = 259\<close>, \<open>ord('k') = 107\<close>,
  \<open>KEY_DOWN = 258\<close>, \<open>ord('j') = 106\<close>, the line feed \<open>10\<close>, \<open>KEY_ENTER = 343\<close>,
  \<open>ord('m') = 109\<close>, \<open>ord('r') = 114\<close>, \<open>ord('i') = 105\<close>.
\<close>

definition handle_key ::
  "manager \<Rightarrow> hex_file list \<Rightarrow> key_env \<Rightarrow> loop_status \<times> manager \<times> effect list" where
  "handle_key m hex_files env =
     (let key = ke_key env in
      if key = 113 then (Quit, m, [])
      else if key = 259 \<or> key = 107 then
        (Continue,
         if hex_files \<noteq> [] \<and> selected_file_idx m > 0
         then m\<lparr>selected_file_idx := selected_file_idx m - 1\<rparr> else m, [])
      else if key = 258 \<or> key = 106 then
        (Continue,
         if hex_files \<noteq> [] \<and> selected_file_idx m < int (length hex_files) - 1
         then m\<lparr>selected_file_idx := selected_file_idx m + 1\<rparr> else m, [])
      else if key = 10 \<or> key = 343 then
        (if hex_files \<noteq> [] \<and> is_mounted m then
           (case py_index hex_files (selected_file_idx m) of
              None \<Rightarrow> (Raised ''list index out of range'', m, [])
            | Some selected_file \<Rightarrow>
                let ((success, msg), t) = copy_hex_file m (ke_copy env) (hf_path selected_file)
                in (Continue, m\<lparr>status_message := msg\<rparr>, t))
         else if \<not> is_mounted m then
           (Continue,
            m\<lparr>status_message := ''Microbit not mounted - press '' @ squote @ ''m'' @ squote
                                  @ '' to mount''\<rparr>, [])
         else (Continue, m\<lparr>status_message := ''No hex files to copy''\<rparr>, []))
      else if key = 109 then
        (if is_mounted m then
           (let ((success, msg), m', t) = unmount_microbit m (ke_unmount env)
            in (Continue,
                (if success then m'\<lparr>manual_unmount := True\<rparr> else m')\<lparr>status_message := msg\<rparr>,
                t))
         else
           (let ((success, msg), m', t) = mount_microbit m (ke_mount env)
            in (Continue,
                (if success then m'\<lparr>manual_unmount := False\<rparr> else m')\<lparr>status_message := msg\<rparr>,
                t)))
      else if key = 114 then (Continue, m\<lparr>status_message := ''File list refreshed''\<rparr>, [])
      else if key = 105 then
        (if is_mounted m then
           (let m' = m\<lparr>show_info_area := \<not> show_info_area m\<rparr>
            in (Continue,
                m'\<lparr>status_message :=
                      ''Firmware info '' @ (if show_info_area m' then ''shown'' else ''hidden'')\<rparr>,
                []))
         else (Continue, m\<lparr>status_message := ''Microbit not mounted''\<rparr>, []))
      else (Continue, m, []))"

record cycle_env =
  cy_connected :: bool
  cy_mount :: mount_env
  cy_unmount :: unmount_env
  cy_dir :: dir_env
  cy_key :: key_env

definition poll_cycle :: "manager \<Rightarrow> cycle_env \<Rightarrow> loop_status \<times> manager \<times> effect list" where
  "poll_cycle m env =
     (let (m1, t1) = status_check m (cy_connected env) (cy_mount env) (cy_unmount env) in
      case get_hex_files (cy_dir env) of
        Inl e \<Rightarrow> (Raised e, m1, t1)
      | Inr hex_files \<Rightarrow>
          let (st, m2, t2) = handle_key (adjust_index m1 hex_files) hex_files (cy_key env)
          in (st, m2, t1 @ t2))"

text \<open>
  \<open>main_loop\<close> over the answers of the world to each iteration: it ends at the quit key
  or at an exception; when the answers run out the loop is still going.
\<close>

fun main_loop :: "manager \<Rightarrow> cycle_env list \<Rightarrow> loop_status \<times> manager \<times> effect list" where
  "main_loop m [] = (Continue, m, [])"
| "main_loop m (env # envs) =
     (case poll_cycle m env of
        (Continue, m', t) \<Rightarrow> (let (st, m'', t') = main_loop m' envs in (st, m'', t @ t'))
      | (st, m', t) \<Rightarrow> (st, m', t))"

text \<open>The \<open>finally\<close> block of \<open>run\<close>: unmount when the manager believes itself mounted.\<close>

definition cleanup :: "manager \<Rightarrow> unmount_env \<Rightarrow> manager \<times> effect list" where
  "cleanup m uenv =
     (if is_mounted m then (let (r, m', t) = unmount_microbit m uenv in (m', t)) else (m, []))"

text \<open>
  The managers that a run can hold between two operations: the fresh manager, and
  what any method or any iteration of the loop leaves, whatever the world answers.
\<close>

inductive reachable :: "manager \<Rightarrow> bool" where
  reach_init: "reachable init_manager"
| reach_mount: "reachable m \<Longrightarrow> mount_microbit m env = (r, m', t) \<Longrightarrow> reachable m'"
| reach_unmount: "reachable m \<Longrightarrow> unmount_microbit m uenv = (r, m', t) \<Longrightarrow> reachable m'"
| reach_cycle: "reachable m \<Longrightarrow> poll_cycle m cenv = (st, m', t) \<Longrightarrow> reachable m'"
| reach_cleanup: "reachable m \<Longrightarrow> cleanup m uenv = (m', t) \<Longrightarrow> reachable m'"

text \<open>
  The mount state is consistent when the flag and the device field agree: the manager
  believes itself mounted exactly when a device is recorded.
\<close>

definition mount_state_inv :: "manager \<Rightarrow> bool" where
  "mount_state_inv m = (is_mounted m \<longleftrightarrow> microbit_device m \<noteq> None)"

section \<open>Sample inputs\<close>

text \<open>Concrete answers of the world and concrete managers, for the instances below.\<close>

definition no_probe :: "string \<Rightarrow> probe" where
  "no_probe d = \<lparr> probe_exists = False, probe_size_output = [] \<rparr>"

definition sample_resolve :: resolve_env where
  "sample_resolve =
     \<lparr> lsblk_json = Some [\<lparr> bd_name = ''sdb'', bd_rm = True, bd_size = ''8.1M'' \<rparr>],
       probes = no_probe \<rparr>"

definition sample_mount_env :: mount_env where
  "sample_mount_env =
     \<lparr> me_resolve = sample_resolve, me_mount_output = [],
       me_mkdir = (True, []), me_mount = (True, []) \<rparr>"

definition already_mounted_env :: mount_env where
  "already_mounted_env =
     \<lparr> me_resolve = sample_resolve,
       me_mount_output = ''/dev/sdb on /mnt/microbit type vfat (rw,relatime)'',
       me_mkdir = (True, []), me_mount = (True, []) \<rparr>"

definition mounted_manager :: manager where
  "mounted_manager = init_manager\<lparr>is_mounted := True, microbit_device := Some ''/dev/sdb''\<rparr>"

definition blank_umount :: unmount_env where
  "blank_umount = \<lparr> ue_mount_output = [], ue_umount = (True, []) \<rparr>"

definition busy_env :: unmount_env where
  "busy_env =
     \<lparr> ue_mount_output = [],
       ue_umount = (False, ''umount: /mnt/microbit: not mounted (target is busy)'') \<rparr>"

definition really_busy_env :: unmount_env where
  "really_busy_env =
     \<lparr> ue_mount_output = [],
       ue_umount = (False, ''umount: /mnt/microbit: Target is busy.'') \<rparr>"

text \<open>
  The answers with which \<open>copy_hex_file\<close> gets as far as running the copy command:
  every check before it passes.
\<close>

definition reaches_copy :: "manager \<Rightarrow> copy_env \<Rightarrow> string \<Rightarrow> bool" where
  "reaches_copy m env hex_file_path =
     (is_mounted m \<and> ce_src_exists env \<and> ce_src_isfile env
      \<and> fst (validate_hex_file (ce_validate_read env)) \<and> ce_read_check env = None
      \<and> ce_mp_exists env \<and> fst (space_check env hex_file_path) = None)"

definition sample_hex :: string where
  "sample_hex = '':020000040000FA'' @ [CHR 0x0A] @ '':00000001FF'' @ [CHR 0x0A]"

definition sample_path :: string where
  "sample_path = ''/home/user/Downloads/blink.hex''"

definition good_copy_env :: copy_env where
  "good_copy_env =
     \<lparr> ce_src_exists = True, ce_src_isfile = True, ce_validate_read = Inr sample_hex,
       ce_read_check = None, ce_mp_exists = True, ce_statvfs = Inr (512, 1000),
       ce_src_size_space = Inr 29, ce_cp = (True, []), ce_dest_exists = True,
       ce_dest_size = Inr 29, ce_src_size_verify = Inr 29 \<rparr>"

definition short_copy_env :: copy_env where
  "short_copy_env = good_copy_env\<lparr>ce_dest_size := Inr 12\<rparr>"

definition unverified_copy_env :: copy_env where
  "unverified_copy_env =
     good_copy_env\<lparr>ce_dest_size := Inr 12,
                   ce_src_size_verify := Inl ''[Errno 2] No such file or directory''\<rparr>"

definition unreadable_dest_env :: copy_env where
  "unreadable_dest_env =
     good_copy_env\<lparr>ce_dest_size := Inl ''[Errno 5] Input/output error''\<rparr>"

definition latched_manager :: manager where
  "latched_manager = init_manager\<lparr>manual_unmount := True\<rparr>"

definition utc :: "int \<Rightarrow> int" where
  "utc t = 0"

definition empty_dir :: dir_env where
  "empty_dir = \<lparr> de_path = ''/home/user/Downloads'', de_exists = True, de_glob = [],
                 de_tz = utc \<rparr>"

definition key_m_env :: key_env where
  "key_m_env = \<lparr> ke_key = 109, ke_mount = sample_mount_env, ke_unmount = blank_umount,
                 ke_copy = good_copy_env \<rparr>"

definition idle_cycle :: cycle_env where
  "idle_cycle = \<lparr> cy_connected = True, cy_mount = sample_mount_env,
                  cy_unmount = blank_umount, cy_dir = empty_dir,
                  cy_key = key_m_env\<lparr>ke_key := - 1\<rparr> \<rparr>"

section \<open>Properties of the mount controller\<close>

text \<open>What a call of \<open>mount_microbit\<close> or \<open>unmount_microbit\<close> can do to the manager.\<close>

lemma mount_microbit_cases:
  assumes "mount_microbit m env = ((ok, msg), m', t)"
  shows "(ok \<and> (\<exists>d. d \<noteq> [] \<and> fst (get_microbit_block_device (me_resolve env)) = Some d
              \<and> m' = m\<lparr>is_mounted := True, microbit_device := Some d\<rparr>))
         \<or> (\<not> ok \<and> m' = m)"
  using assms
  by (auto simp: mount_microbit_def Let_def split: prod.splits option.splits if_splits)

lemma unmount_microbit_cases:
  assumes "unmount_microbit m env = ((ok, msg), m', t)"
  shows "(ok \<and> m' = m\<lparr>is_mounted := False, microbit_device := None\<rparr>)
         \<or> (ok \<and> m' = m \<and> \<not> is_mounted m)
         \<or> (\<not> ok \<and> m' = m)"
  using assms
  by (auto simp: unmount_microbit_def Let_def split: prod.splits option.splits if_splits)

lemma mount_inv:
  "mount_state_inv m \<Longrightarrow> mount_microbit m env = (r, m', t) \<Longrightarrow> mount_state_inv m'"
  using mount_microbit_cases[of m env "fst r" "snd r" m' t]
  by (auto simp: mount_state_inv_def)

lemma unmount_inv:
  "mount_state_inv m \<Longrightarrow> unmount_microbit m env = (r, m', t) \<Longrightarrow> mount_state_inv m'"
  using unmount_microbit_cases[of m env "fst r" "snd r" m' t]
  by (auto simp: mount_state_inv_def)

lemma status_check_inv:
  "mount_state_inv m \<Longrightarrow> status_check m c menv uenv = (m', t) \<Longrightarrow> mount_state_inv m'"
  by (auto simp: status_check_def mount_state_inv_def split: if_splits prod.splits
      dest!: mount_microbit_cases unmount_microbit_cases)

lemma handle_key_inv:
  "mount_state_inv m \<Longrightarrow> handle_key m hf kenv = (st, m', t) \<Longrightarrow> mount_state_inv m'"
  by (auto simp: handle_key_def mount_state_inv_def Let_def
      split: if_splits prod.splits option.splits
      dest!: mount_microbit_cases unmount_microbit_cases)

lemma adjust_index_inv: "mount_state_inv (adjust_index m hf) = mount_state_inv m"
  by (simp add: adjust_index_def mount_state_inv_def)

lemma poll_cycle_inv:
  "mount_state_inv m \<Longrightarrow> poll_cycle m cenv = (st, m', t) \<Longrightarrow> mount_state_inv m'"
  by (auto simp: poll_cycle_def split: prod.splits sum.splits dest: status_check_inv)
     (metis status_check_inv handle_key_inv adjust_index_inv)

lemma cleanup_inv: "mount_state_inv m \<Longrightarrow> cleanup m uenv = (m', t) \<Longrightarrow> mount_state_inv m'"
  by (auto simp: cleanup_def split: if_splits prod.splits dest: unmount_inv)

lemma reachable_inv: "reachable m \<Longrightarrow> mount_state_inv m"
proof (induction rule: reachable.induct)
  case reach_init
  show ?case by (simp add: mount_state_inv_def init_manager_def)
qed (auto dest: mount_inv unmount_inv poll_cycle_inv cleanup_inv)

lemma sample_mount:
  "mount_microbit init_manager sample_mount_env =
     ((True, ''Mounted /dev/sdb to /mnt/microbit''), mounted_manager,
      [Shell ''lsblk -J'', Shell ''mount'', Shell ''sudo mkdir -p /mnt/microbit'',
       Shell ''sudo mount /dev/sdb /mnt/microbit''])"
  by code_simp

lemma reachable_mounted_manager: "reachable mounted_manager"
  by (rule reach_mount[OF reach_init sample_mount])

text \<open>
  C1. In every manager that a sequence of mounts, unmounts, loop iterations and the
  final cleanup can leave (\<open>copy_hex_file\<close> assigns no field), a manager that believes
  itself mounted has a device recorded. From such a manager, every successful
  \<open>mount_microbit\<close> leaves the flag set and the resolved device recorded, and every
  successful \<open>unmount_microbit\<close> leaves the flag cleared and no device recorded.
\<close>

theorem mount_state_invariant:
  assumes "reachable m"
  shows "(is_mounted m \<longrightarrow> microbit_device m \<noteq> None)
       \<and> (\<forall>env msg m' t. mount_microbit m env = ((True, msg), m', t) \<longrightarrow>
            is_mounted m' \<and> microbit_device m' \<noteq> None
            \<and> microbit_device m' = fst (get_microbit_block_device (me_resolve env)))
       \<and> (\<forall>uenv msg m' t. unmount_microbit m uenv = ((True, msg), m', t) \<longrightarrow>
            \<not> is_mounted m' \<and> microbit_device m' = None)"
proof -
  have inv: "mount_state_inv m"
    using assms by (rule reachable_inv)
  have a: "is_mounted m \<longrightarrow> microbit_device m \<noteq> None"
    using inv by (simp add: mount_state_inv_def)
  have b: "is_mounted m' \<and> microbit_device m' \<noteq> None
           \<and> microbit_device m' = fst (get_microbit_block_device (me_resolve env))"
    if "mount_microbit m env = ((True, msg), m', t)" for env msg m' t
    using mount_microbit_cases[OF that] by auto
  have c: "\<not> is_mounted m' \<and> microbit_device m' = None"
    if "unmount_microbit m uenv = ((True, msg), m', t)" for uenv msg m' t
    using unmount_microbit_cases[OF that] inv by (auto simp: mount_state_inv_def)
  show ?thesis using a b c by blast
qed

theorem mount_state_invariant_witness:
  "reachable mounted_manager \<and> is_mounted mounted_manager
   \<and> microbit_device mounted_manager \<noteq> None
   \<and> \<not> is_mounted (fst (snd (unmount_microbit mounted_manager blank_umount)))
   \<and> microbit_device (fst (snd (unmount_microbit mounted_manager blank_umount))) = None"
proof -
  have r: "reachable mounted_manager"
    by (rule reachable_mounted_manager)
  have m: "is_mounted mounted_manager"
    by (simp add: mounted_manager_def)
  have u: "unmount_microbit mounted_manager blank_umount =
            ((True, ''Microbit unmounted successfully''),
             fst (snd (unmount_microbit mounted_manager blank_umount)),
             snd (snd (unmount_microbit mounted_manager blank_umount)))"
    by (simp add: unmount_microbit_def blank_umount_def mounted_manager_def Let_def)
  from mount_state_invariant[OF r] r m u show ?thesis by blast
qed

text \<open>
  C3, as stated, fails: the test for \<open>not mounted\<close> comes first in the chain, so a
  diagnostic of the failed unmount command that holds both \<open>not mounted\<close> and
  \<open>target is busy\<close> is reported as success.
\<close>

theorem unmount_busy_counterexample:
  "str_contains ''target is busy'' (lower (snd (ue_umount busy_env)))
   \<and> \<not> fst (ue_umount busy_env)
   \<and> is_mounted mounted_manager
   \<and> fst (unmount_microbit mounted_manager busy_env) = (True, ''Microbit was not mounted'')"
  by code_simp

text \<open>
  C3, amended. When the unmount command is run and fails with a diagnostic that
  contains \<open>device is busy\<close> or \<open>target is busy\<close> and does not contain \<open>not mounted\<close>
  (all three without regard to case), \<open>unmount_microbit\<close> reports failure with the
  busy message and leaves the manager as it was.
\<close>

theorem unmount_busy:
  assumes "is_mounted m \<or> is_microbit_mounted (ue_mount_output uenv)"
    and "\<not> fst (ue_umount uenv)"
    and "str_contains ''device is busy'' (lower (snd (ue_umount uenv)))
         \<or> str_contains ''target is busy'' (lower (snd (ue_umount uenv)))"
    and "\<not> str_contains ''not mounted'' (lower (snd (ue_umount uenv)))"
  shows "fst (unmount_microbit m uenv) =
           (False, ''Cannot unmount - device is busy (close any files or programs using it)'')
         \<and> fst (snd (unmount_microbit m uenv)) = m"
  using assms by (auto simp: unmount_microbit_def Let_def)

theorem unmount_busy_witness:
  "is_mounted mounted_manager \<and> \<not> fst (ue_umount really_busy_env)
   \<and> str_contains ''target is busy'' (lower (snd (ue_umount really_busy_env)))
   \<and> \<not> str_contains ''not mounted'' (lower (snd (ue_umount really_busy_env)))
   \<and> fst (unmount_microbit mounted_manager really_busy_env) =
       (False, ''Cannot unmount - device is busy (close any files or programs using it)'')"
proof -
  have 1: "is_mounted mounted_manager" by (simp add: mounted_manager_def)
  have 2: "\<not> fst (ue_umount really_busy_env)" by (simp add: really_busy_env_def)
  have 3: "str_contains ''target is busy'' (lower (snd (ue_umount really_busy_env)))"
    by code_simp
  have 4: "\<not> str_contains ''not mounted'' (lower (snd (ue_umount really_busy_env)))"
    by code_simp
  from unmount_busy[of mounted_manager really_busy_env] 1 2 3 4 show ?thesis by blast
qed

text \<open>
  C5. When both calls resolve the same device and both find the mount point in the
  mount table, two calls of \<open>mount_microbit\<close> in a row succeed, and the device recorded
  after the second call is the one recorded after the first.
\<close>

theorem mount_idempotent:
  assumes "fst (get_microbit_block_device (me_resolve env1)) = Some d"
    and "fst (get_microbit_block_device (me_resolve env2)) = Some d"
    and "d \<noteq> []"
    and "is_microbit_mounted (me_mount_output env1)"
    and "is_microbit_mounted (me_mount_output env2)"
    and "mount_microbit m env1 = (r1, m1, t1)"
    and "mount_microbit m1 env2 = (r2, m2, t2)"
  shows "fst r1 \<and> fst r2 \<and> microbit_device m1 = Some d
         \<and> microbit_device m2 = microbit_device m1 \<and> is_mounted m1 \<and> is_mounted m2"
  using assms
  by (auto simp: mount_microbit_def Let_def split: prod.splits)

lemma already_mounted_resolve:
  "fst (get_microbit_block_device (me_resolve already_mounted_env)) = Some ''/dev/sdb''"
  by code_simp

lemma already_mounted_table: "is_microbit_mounted (me_mount_output already_mounted_env)"
  by code_simp

lemma already_mounted_first:
  "mount_microbit init_manager already_mounted_env =
     ((True, ''Already mounted /dev/sdb to /mnt/microbit''), mounted_manager,
      [Shell ''lsblk -J'', Shell ''mount''])"
  by code_simp

lemma already_mounted_second:
  "mount_microbit mounted_manager already_mounted_env =
     ((True, ''Already mounted /dev/sdb to /mnt/microbit''), mounted_manager,
      [Shell ''lsblk -J'', Shell ''mount''])"
  by code_simp

theorem mount_idempotent_witness:
  "fst (fst (mount_microbit init_manager already_mounted_env))
   \<and> fst (fst (mount_microbit mounted_manager already_mounted_env))
   \<and> microbit_device mounted_manager = Some ''/dev/sdb''
   \<and> fst (snd (mount_microbit init_manager already_mounted_env)) = mounted_manager
   \<and> fst (snd (mount_microbit mounted_manager already_mounted_env)) = mounted_manager"
  using mount_idempotent[OF already_mounted_resolve already_mounted_resolve _
      already_mounted_table already_mounted_table already_mounted_first already_mounted_second]
  by (simp add: already_mounted_first already_mounted_second)

section \<open>Properties of the transfer\<close>

lemma digit_char_simps:
  "digit_char 0 = CHR ''0''" "digit_char 1 = CHR ''1''" "digit_char (Suc 0) = CHR ''1''"
  "digit_char 2 = CHR ''2''" "digit_char 3 = CHR ''3''" "digit_char 4 = CHR ''4''"
  "digit_char 5 = CHR ''5''" "digit_char 6 = CHR ''6''" "digit_char 7 = CHR ''7''"
  "digit_char 8 = CHR ''8''" "digit_char 9 = CHR ''9''"
  by code_simp+

lemma v1: "validate_hex_file (Inr sample_hex) = (True, ''Valid HEX file'')"
  by code_simp

lemma s12: "str_of_nat 12 = ''12''"
  by (simp add: str_of_nat.simps digit_char_simps)

lemma c12: "commas (str_of_nat 1234567) = ''1,234,567''"
  by (simp add: str_of_nat.simps commas.simps digit_char_simps)

lemma v2: "space_check good_copy_env sample_path = (None, [StatVfs mount_point, GetSize sample_path])"
  by (simp add: space_check_def good_copy_env_def)

lemma b1: "basename sample_path = ''blink.hex''"
  by code_simp

lemma good_fields:
  "is_mounted mounted_manager" "ce_src_exists good_copy_env" "ce_src_isfile good_copy_env"
  "ce_validate_read good_copy_env = Inr sample_hex" "ce_read_check good_copy_env = None"
  "ce_mp_exists good_copy_env" "fst (ce_cp good_copy_env)" "ce_dest_exists good_copy_env"
  by (simp_all add: good_copy_env_def mounted_manager_def)

lemma reaches_good: "reaches_copy mounted_manager good_copy_env sample_path"
  by (simp add: reaches_copy_def good_fields v1 v2)

lemma copy_reaches:
  assumes "reaches_copy m env p"
  shows "fst (copy_hex_file m env p) =
           (if fst (ce_cp env)
            then fst (verify_copy env p (mount_point @ ''/'' @ basename p) (basename p))
            else classify_copy_error (snd (ce_cp env)))"
  using assms
  by (auto simp: reaches_copy_def copy_hex_file_def Let_def split: prod.splits option.splits)

lemma space_check_update [simp]:
  "space_check (env\<lparr>ce_dest_size := x\<rparr>) p = space_check env p"
  "space_check (env\<lparr>ce_src_size_verify := y\<rparr>) p = space_check env p"
  by (simp_all add: space_check_def split: sum.splits prod.splits)

lemma reaches_copy_update [simp]:
  "reaches_copy m (env\<lparr>ce_dest_size := x\<rparr>) p = reaches_copy m env p"
  "reaches_copy m (env\<lparr>ce_src_size_verify := y\<rparr>) p = reaches_copy m env p"
  by (simp_all add: reaches_copy_def)

text \<open>
  C7. When the manager does not believe itself mounted, \<open>copy_hex_file\<close> returns
  failure with the message \<open>Microbit not mounted\<close> and has no effect: no filesystem
  call, no validation read and no shell command, whatever the path and the world.
\<close>

theorem copy_not_mounted:
  assumes "\<not> is_mounted m"
  shows "copy_hex_file m env hex_file_path = ((False, ''Microbit not mounted''), [])"
  using assms by (simp add: copy_hex_file_def)

theorem copy_not_mounted_witness:
  "\<not> is_mounted init_manager
   \<and> copy_hex_file init_manager good_copy_env sample_path = ((False, ''Microbit not mounted''), [])"
  using copy_not_mounted[of init_manager good_copy_env sample_path]
  by (simp add: init_manager_def)

text \<open>
  C10. When every check passes, the copy command reports success and the destination
  exists, but reading the size of the destination raises, or reading the size of the
  source raises after it, \<open>copy_hex_file\<close> returns success, with a message that
  carries the note \<open>verification failed\<close> and the text of the exception.
\<close>

theorem copy_verification_raises:
  assumes "reaches_copy m env p" and "fst (ce_cp env)" and "ce_dest_exists env"
    and "ce_dest_size env = Inl e \<or> (\<exists>n. ce_dest_size env = Inr n) \<and> ce_src_size_verify env = Inl e"
  shows "fst (copy_hex_file m env p) =
           (True, ''Copied '' @ basename p @ '' (verification failed: '' @ e @ '')'')"
  using assms by (auto simp: copy_reaches verify_copy_def)

text \<open>
  C4, amended. When every check passes, the copy command reports success, the
  destination exists and both sizes are read, a destination size that differs from
  the source size gives failure with the message \<open>Copy incomplete\<close> and both sizes,
  and the result is success exactly when the sizes are equal.
\<close>

theorem copy_size_verified:
  assumes "reaches_copy m env p" and "fst (ce_cp env)" and "ce_dest_exists env"
    and "ce_dest_size env = Inr copied_size" and "ce_src_size_verify env = Inr original_size"
  shows "(copied_size \<noteq> original_size \<longrightarrow>
            fst (copy_hex_file m env p) =
              (False, ''Copy incomplete: '' @ str_of_nat copied_size @ ''/''
                      @ str_of_nat original_size @ '' bytes''))
         \<and> (fst (fst (copy_hex_file m env p)) \<longleftrightarrow> copied_size = original_size)"
  using assms by (auto simp: copy_reaches verify_copy_def)

lemma reaches_short: "reaches_copy mounted_manager short_copy_env sample_path"
  by (simp add: short_copy_env_def reaches_good)

lemma reaches_unverified: "reaches_copy mounted_manager unverified_copy_env sample_path"
  by (simp add: unverified_copy_env_def reaches_good)

lemma reaches_unreadable: "reaches_copy mounted_manager unreadable_dest_env sample_path"
  by (simp add: unreadable_dest_env_def reaches_good)

text \<open>
  C4, as stated, fails: the destination holds 12 bytes, the source was measured at 29
  bytes by the capacity check, the second reading of the source size raises, and the
  result is success.
\<close>

theorem copy_size_counterexample:
  "fst (ce_cp unverified_copy_env) \<and> ce_dest_exists unverified_copy_env
   \<and> ce_dest_size unverified_copy_env = Inr 12
   \<and> ce_src_size_space unverified_copy_env = Inr 29
   \<and> fst (copy_hex_file mounted_manager unverified_copy_env sample_path) =
       (True, ''Copied blink.hex (verification failed: [Errno 2] No such file or directory)'')"
proof -
  have 1: "fst (ce_cp unverified_copy_env)" "ce_dest_exists unverified_copy_env"
    "ce_dest_size unverified_copy_env = Inr 12"
    "ce_src_size_space unverified_copy_env = Inr 29"
    "ce_src_size_verify unverified_copy_env = Inl ''[Errno 2] No such file or directory''"
    by (simp_all add: unverified_copy_env_def good_copy_env_def)
  show ?thesis
    by (simp add: copy_reaches[OF reaches_unverified] 1 verify_copy_def b1)
qed

theorem copy_size_verified_witness:
  "reaches_copy mounted_manager short_copy_env sample_path
   \<and> fst (ce_cp short_copy_env) \<and> ce_dest_exists short_copy_env
   \<and> ce_dest_size short_copy_env = Inr 12 \<and> ce_src_size_verify short_copy_env = Inr 29
   \<and> fst (copy_hex_file mounted_manager short_copy_env sample_path) =
       (False, ''Copy incomplete: 12/29 bytes'')"
proof -
  have 1: "fst (ce_cp short_copy_env)" "ce_dest_exists short_copy_env"
    "ce_dest_size short_copy_env = Inr 12" "ce_src_size_verify short_copy_env = Inr 29"
    by (simp_all add: short_copy_env_def good_copy_env_def)
  have 2: "str_of_nat 12 = ''12''" "str_of_nat 29 = ''29''"
    by (simp_all add: str_of_nat.simps digit_char_simps)
  from copy_size_verified[OF reaches_short 1] 1 2 reaches_short show ?thesis by simp
qed

theorem copy_verification_raises_witness:
  "reaches_copy mounted_manager unreadable_dest_env sample_path
   \<and> fst (ce_cp unreadable_dest_env) \<and> ce_dest_exists unreadable_dest_env
   \<and> ce_dest_size unreadable_dest_env = Inl ''[Errno 5] Input/output error''
   \<and> fst (copy_hex_file mounted_manager unreadable_dest_env sample_path) =
       (True, ''Copied blink.hex (verification failed: [Errno 5] Input/output error)'')"
proof -
  have 1: "fst (ce_cp unreadable_dest_env)" "ce_dest_exists unreadable_dest_env"
    by (simp_all add: unreadable_dest_env_def good_copy_env_def)
  have 2: "ce_dest_size unreadable_dest_env = Inl ''[Errno 5] Input/output error''"
    by (simp add: unreadable_dest_env_def)
  from copy_verification_raises[OF reaches_unreadable 1 disjI1[OF 2]] 1 2 b1 reaches_unreadable
  show ?thesis by simp
qed

section \<open>Properties of the control loop\<close>

lemma handle_key_unmounted:
  assumes "\<not> is_mounted m" and "ke_key kenv \<noteq> 109" and "handle_key m hf kenv = (st, m', t)"
  shows "\<not> is_mounted m' \<and> manual_unmount m' = manual_unmount m \<and> t = []"
  using assms
  by (auto simp: handle_key_def Let_def split: if_splits)

lemma poll_cycle_latched:
  assumes "\<not> is_mounted m" and "manual_unmount m" and "cy_connected cenv"
    and "ke_key (cy_key cenv) \<noteq> 109" and "poll_cycle m cenv = (st, m', t)"
  shows "\<not> is_mounted m' \<and> manual_unmount m' \<and> t = [Shell ''lsusb'']"
proof -
  have sc: "status_check m (cy_connected cenv) (cy_mount cenv) (cy_unmount cenv)
              = (m, [Shell ''lsusb''])"
    using assms(1-3) by (simp add: status_check_def)
  show ?thesis
  proof (cases "get_hex_files (cy_dir cenv)")
    case (Inl e)
    then show ?thesis using assms sc by (simp add: poll_cycle_def)
  next
    case (Inr hf)
    obtain st2 m2 t2 where hk: "handle_key (adjust_index m hf) hf (cy_key cenv) = (st2, m2, t2)"
      by (metis prod_cases3)
    have "\<not> is_mounted (adjust_index m hf)" "manual_unmount (adjust_index m hf)"
      using assms(1,2) by (simp_all add: adjust_index_def)
    with handle_key_unmounted[OF _ assms(4) hk]
    have "\<not> is_mounted m2 \<and> manual_unmount m2 \<and> t2 = []" by simp
    then show ?thesis using assms(5) sc Inr hk by (simp add: poll_cycle_def)
  qed
qed

lemma main_loop_latched:
  assumes "\<not> is_mounted m" and "manual_unmount m"
    and "\<forall>e \<in> set envs. cy_connected e \<and> ke_key (cy_key e) \<noteq> 109"
    and "main_loop m envs = (st, m', t)"
  shows "\<not> is_mounted m' \<and> manual_unmount m' \<and> set t \<subseteq> {Shell ''lsusb''}"
  using assms
proof (induction envs arbitrary: m st m' t)
  case Nil
  then show ?case by simp
next
  case (Cons e envs)
  obtain st1 m1 t1 where pc: "poll_cycle m e = (st1, m1, t1)"
    by (metis prod_cases3)
  have e: "cy_connected e" "ke_key (cy_key e) \<noteq> 109"
    using Cons.prems(3) by simp_all
  from poll_cycle_latched[OF Cons.prems(1,2) e pc]
  have m1: "\<not> is_mounted m1" "manual_unmount m1" "t1 = [Shell ''lsusb'']" by simp_all
  show ?case
  proof (cases st1)
    case Continue
    obtain st2 m2 t2 where ml: "main_loop m1 envs = (st2, m2, t2)"
      by (metis prod_cases3)
    have "\<forall>e \<in> set envs. cy_connected e \<and> ke_key (cy_key e) \<noteq> 109"
      using Cons.prems(3) by simp
    from Cons.IH[OF m1(1,2) this ml]
    have "\<not> is_mounted m2 \<and> manual_unmount m2 \<and> set t2 \<subseteq> {Shell ''lsusb''}" .
    then show ?thesis using Cons.prems(4) pc Continue ml m1 by auto
  next
    case Quit
    then show ?thesis using Cons.prems(4) pc m1 by auto
  next
    case (Raised x)
    then show ?thesis using Cons.prems(4) pc m1 by auto
  qed
qed

text \<open>
  C2. The latch \<open>manual_unmount\<close>. (a) When the manager is mounted and the user
  presses \<open>m\<close>, a successful unmount sets the latch and leaves the manager unmounted.
  (b) In a status check that detects the device as connected, with the manager not
  mounted and the latch set, nothing is mounted: the manager is unchanged and the only
  effect is the detection itself. (c) A status check that detects the device as
  disconnected leaves the latch cleared. (d) When the manager is not mounted and the
  user presses \<open>m\<close>, a successful mount clears the latch. (e) From an unmounted manager
  with the latch set, through any number of iterations that all detect the device as
  connected and in which the key is not \<open>m\<close>, the manager stays unmounted, the latch
  stays set and the loop runs no command but the detection.
\<close>

theorem manual_unmount_latch:
  "(is_mounted ma \<and> ke_key ka = 109 \<and> fst (fst (unmount_microbit ma (ke_unmount ka))) \<longrightarrow>
      manual_unmount (fst (snd (handle_key ma hfa ka)))
      \<and> \<not> is_mounted (fst (snd (handle_key ma hfa ka))))
   \<and> (\<not> is_mounted mb \<and> manual_unmount mb \<longrightarrow>
        status_check mb True menv uenv = (mb, [Shell ''lsusb'']))
   \<and> \<not> manual_unmount (fst (status_check mc False menv uenv))
   \<and> (\<not> is_mounted md \<and> ke_key kd = 109 \<and> fst (fst (mount_microbit md (ke_mount kd))) \<longrightarrow>
        \<not> manual_unmount (fst (snd (handle_key md hfd kd))))
   \<and> (\<not> is_mounted me \<and> manual_unmount me
        \<and> (\<forall>e \<in> set envs. cy_connected e \<and> ke_key (cy_key e) \<noteq> 109) \<longrightarrow>
        \<not> is_mounted (fst (snd (main_loop me envs)))
        \<and> manual_unmount (fst (snd (main_loop me envs)))
        \<and> set (snd (snd (main_loop me envs))) \<subseteq> {Shell ''lsusb''})"
proof -
  have a: "manual_unmount (fst (snd (handle_key ma hfa ka)))
           \<and> \<not> is_mounted (fst (snd (handle_key ma hfa ka)))"
    if "is_mounted ma" "ke_key ka = 109" "fst (fst (unmount_microbit ma (ke_unmount ka)))"
  proof -
    obtain ok msg m' t where u: "unmount_microbit ma (ke_unmount ka) = ((ok, msg), m', t)"
      by (cases "unmount_microbit ma (ke_unmount ka)") auto
    with that(3) have ok by simp
    with unmount_microbit_cases[OF u] that(1)
    have "m' = ma\<lparr>is_mounted := False, microbit_device := None\<rparr>" by auto
    then show ?thesis using that u \<open>ok\<close> by (simp add: handle_key_def)
  qed
  have b: "status_check mb True menv uenv = (mb, [Shell ''lsusb''])"
    if "\<not> is_mounted mb" "manual_unmount mb"
    using that by (simp add: status_check_def)
  have c: "\<not> manual_unmount (fst (status_check mc False menv uenv))"
    by (simp add: status_check_def split: prod.splits)
  have d: "\<not> manual_unmount (fst (snd (handle_key md hfd kd)))"
    if "\<not> is_mounted md" "ke_key kd = 109" "fst (fst (mount_microbit md (ke_mount kd)))"
    using that by (auto simp: handle_key_def split: prod.splits)
  have e: "\<not> is_mounted (fst (snd (main_loop me envs)))
        \<and> manual_unmount (fst (snd (main_loop me envs)))
        \<and> set (snd (snd (main_loop me envs))) \<subseteq> {Shell ''lsusb''}"
    if "\<not> is_mounted me" "manual_unmount me"
       "\<forall>e \<in> set envs. cy_connected e \<and> ke_key (cy_key e) \<noteq> 109"
    using main_loop_latched[OF that, of "fst (main_loop me envs)"
        "fst (snd (main_loop me envs))" "snd (snd (main_loop me envs))"]
    by simp
  show ?thesis using a b c d e by blast
qed


theorem manual_unmount_latch_witness:
  "is_mounted mounted_manager \<and> ke_key key_m_env = 109
   \<and> fst (fst (unmount_microbit mounted_manager (ke_unmount key_m_env)))
   \<and> manual_unmount (fst (snd (handle_key mounted_manager [] key_m_env)))
   \<and> \<not> is_mounted (fst (snd (handle_key mounted_manager [] key_m_env)))
   \<and> \<not> is_mounted latched_manager \<and> manual_unmount latched_manager
   \<and> status_check latched_manager True sample_mount_env blank_umount =
        (latched_manager, [Shell ''lsusb''])
   \<and> \<not> manual_unmount (fst (status_check latched_manager False sample_mount_env blank_umount))
   \<and> \<not> is_mounted init_manager
   \<and> fst (fst (mount_microbit init_manager (ke_mount key_m_env)))
   \<and> \<not> manual_unmount (fst (snd (handle_key init_manager [] key_m_env)))
   \<and> cy_connected idle_cycle \<and> ke_key (cy_key idle_cycle) \<noteq> 109
   \<and> \<not> is_mounted (fst (snd (main_loop latched_manager [idle_cycle, idle_cycle])))
   \<and> manual_unmount (fst (snd (main_loop latched_manager [idle_cycle, idle_cycle])))
   \<and> set (snd (snd (main_loop latched_manager [idle_cycle, idle_cycle]))) \<subseteq> {Shell ''lsusb''}"
proof -
  have 1: "is_mounted mounted_manager" "ke_key key_m_env = 109"
    "\<not> is_mounted latched_manager" "manual_unmount latched_manager"
    "\<not> is_mounted init_manager"
    by (simp_all add: mounted_manager_def key_m_env_def latched_manager_def init_manager_def)
  have 2: "fst (fst (unmount_microbit mounted_manager (ke_unmount key_m_env)))"
    by code_simp
  have 3: "fst (fst (mount_microbit init_manager (ke_mount key_m_env)))"
    by code_simp
  have 4: "\<forall>e \<in> set [idle_cycle, idle_cycle]. cy_connected e \<and> ke_key (cy_key e) \<noteq> 109"
    by (simp add: idle_cycle_def)
  from manual_unmount_latch[of mounted_manager key_m_env "[]" latched_manager
      sample_mount_env blank_umount latched_manager init_manager key_m_env "[]"
      latched_manager "[idle_cycle, idle_cycle]"] 1 2 3 4
  show ?thesis by simp
qed

end
